theory Spec2Isabelle
  imports Main "HOL-Library.Word"
begin

section \<open>The dual-residency buffer\<close>

text \<open>
  \<^verbatim>\<open>Waveform.h\<close> stores its timestamps and samples in \<^verbatim>\<open>AcceleratorBuffer<T>\<close>, whose
  header (\<^verbatim>\<open>AcceleratorBuffer.h\<close>) is not part of the sources verified here. Its data and its
  operations are therefore written down from section 4.1 of the specification; every
  definition of this section says so.
\<close>

text \<open>Modelled from the spec: the recognised options of \<^verbatim>\<open>setCpuAccessHint\<close> and
  \<^verbatim>\<open>setGpuAccessHint\<close> (NEVER, LIKELY, ALWAYS); the enumeration itself is declared in the
  missing \<^verbatim>\<open>AcceleratorBuffer.h\<close>.\<close>

datatype UsageHint = HINT_NEVER | HINT_LIKELY | HINT_ALWAYS

text \<open>Modelled from the spec: the four states of the conceptual per-buffer state machine;
  the buffer class that tracks them is declared in the missing \<^verbatim>\<open>AcceleratorBuffer.h\<close>.\<close>

datatype Residency = Uninitialized | CpuValid | GpuValid | BothValid

text \<open>Modelled from the spec: an ordered sequence of elements that may exist in a
  CPU-visible domain, a GPU-visible domain, both or neither, with one access hint per
  domain. The class is declared in the missing \<^verbatim>\<open>AcceleratorBuffer.h\<close>. The sequence has one
  length; each index holds the element as the CPU sees it and as the GPU sees it, and
  \<open>residency\<close> says which of the two views are valid.\<close>

record 'a AcceleratorBuffer =
  cells :: "('a \<times> 'a) list"
  residency :: Residency
  m_cpuAccessHint :: UsageHint
  m_gpuAccessHint :: UsageHint

definition cpu_data :: "'a AcceleratorBuffer \<Rightarrow> 'a list" where
  "cpu_data b = map fst (cells b)"

definition gpu_data :: "'a AcceleratorBuffer \<Rightarrow> 'a list" where
  "gpu_data b = map snd (cells b)"

text \<open>Content that the spec leaves unspecified (the elements of a buffer after
  \<^verbatim>\<open>resize\<close>) is supplied by the caller of the model, one function from index to element
  for the CPU view and one for the GPU view; every theorem holds for all such functions.\<close>

type_synonym 'a junk = "(nat \<Rightarrow> 'a) \<times> (nat \<Rightarrow> 'a)"

text \<open>Modelled from the spec: a buffer as its default constructor leaves it, missing with
  \<^verbatim>\<open>AcceleratorBuffer.h\<close>. It holds no element and is valid in neither domain. The spec does
  not give the default access hints, so they are parameters.\<close>

definition AcceleratorBuffer_init :: "UsageHint \<times> UsageHint \<Rightarrow> 'a AcceleratorBuffer" where
  "AcceleratorBuffer_init hints =
     \<lparr> cells = [], residency = Uninitialized,
       m_cpuAccessHint = fst hints, m_gpuAccessHint = snd hints \<rparr>"

text \<open>Modelled from the spec: the length of a buffer (\<^verbatim>\<open>size()\<close> of the missing
  \<^verbatim>\<open>AcceleratorBuffer.h\<close>).\<close>

definition size_buf :: "'a AcceleratorBuffer \<Rightarrow> nat" where
  "size_buf b = length (cells b)"

text \<open>Modelled from the spec: \<^verbatim>\<open>resize(n)\<close> of the missing \<^verbatim>\<open>AcceleratorBuffer.h\<close>: "changes
  length to n"; the content is unspecified (the spec asks not to assume that elements
  below the old length survive), and the state is reset conservatively to
  \<open>Uninitialized\<close>.\<close>

definition resize :: "nat \<Rightarrow> 'a junk \<Rightarrow> 'a AcceleratorBuffer \<Rightarrow> 'a AcceleratorBuffer" where
  "resize n j b =
     b\<lparr> cells := map (\<lambda>i. (fst j i, snd j i)) [0..<n], residency := Uninitialized \<rparr>"

text \<open>Modelled from the spec: \<^verbatim>\<open>clear()\<close> of the missing \<^verbatim>\<open>AcceleratorBuffer.h\<close>: "resize to
  0".\<close>

definition clear_buf :: "'a AcceleratorBuffer \<Rightarrow> 'a AcceleratorBuffer" where
  "clear_buf b = b\<lparr> cells := [], residency := Uninitialized \<rparr>"

text \<open>Modelled from the spec: \<^verbatim>\<open>prepareForCpuAccess()\<close> of the missing
  \<^verbatim>\<open>AcceleratorBuffer.h\<close>: from \<open>GpuValid\<close> copy and go to \<open>BothValid\<close>; from \<open>CpuValid\<close> and
  \<open>BothValid\<close> nothing happens. From \<open>Uninitialized\<close> there is nothing to transfer: the
  CPU view becomes valid ("ensures the CPU-visible copy is valid") and the GPU validity
  stays as it is ("has no effect on GPU validity").\<close>

fun PrepareForCpuAccess_buf :: "'a AcceleratorBuffer \<Rightarrow> 'a AcceleratorBuffer" where
  "PrepareForCpuAccess_buf b =
     (case residency b of
        GpuValid \<Rightarrow> b\<lparr> cells := map (\<lambda>(c, g). (g, g)) (cells b), residency := BothValid \<rparr>
      | Uninitialized \<Rightarrow> b\<lparr> residency := CpuValid \<rparr>
      | CpuValid \<Rightarrow> b
      | BothValid \<Rightarrow> b)"

text \<open>Modelled from the spec: \<^verbatim>\<open>prepareForGpuAccess()\<close> of the missing
  \<^verbatim>\<open>AcceleratorBuffer.h\<close>, "the mirror" of the CPU operation.\<close>

fun PrepareForGpuAccess_buf :: "'a AcceleratorBuffer \<Rightarrow> 'a AcceleratorBuffer" where
  "PrepareForGpuAccess_buf b =
     (case residency b of
        CpuValid \<Rightarrow> b\<lparr> cells := map (\<lambda>(c, g). (c, c)) (cells b), residency := BothValid \<rparr>
      | Uninitialized \<Rightarrow> b\<lparr> residency := GpuValid \<rparr>
      | GpuValid \<Rightarrow> b
      | BothValid \<Rightarrow> b)"

text \<open>Modelled from the spec: \<^verbatim>\<open>markModifiedFromCpu()\<close> and \<^verbatim>\<open>markModifiedFromGpu()\<close> of the
  missing \<^verbatim>\<open>AcceleratorBuffer.h\<close>: the named domain becomes authoritative and the other
  one stale, without copying.\<close>

definition MarkModifiedFromCpu :: "'a AcceleratorBuffer \<Rightarrow> 'a AcceleratorBuffer" where
  "MarkModifiedFromCpu b = b\<lparr> residency := CpuValid \<rparr>"

definition MarkModifiedFromGpu :: "'a AcceleratorBuffer \<Rightarrow> 'a AcceleratorBuffer" where
  "MarkModifiedFromGpu b = b\<lparr> residency := GpuValid \<rparr>"

text \<open>Modelled from the spec: \<^verbatim>\<open>copyFrom(other)\<close> of the missing \<^verbatim>\<open>AcceleratorBuffer.h\<close>:
  "bulk-overwrites this buffer's contents with other's, for the current length; caller
  must have pre-sized this to match other". The contents are both views together with
  their validity; the hints are configuration and stay. A destination of another length
  is undefined behaviour in the original; here it is the value \<open>None\<close>.\<close>

definition CopyFrom :: "'a AcceleratorBuffer \<Rightarrow> 'a AcceleratorBuffer \<Rightarrow> 'a AcceleratorBuffer option" where
  "CopyFrom rhs b =
     (if size_buf b = size_buf rhs
      then Some (b\<lparr> cells := cells rhs, residency := residency rhs \<rparr>)
      else None)"

text \<open>Modelled from the spec: \<^verbatim>\<open>setCpuAccessHint(hint)\<close> and \<^verbatim>\<open>setGpuAccessHint(hint)\<close> of
  the missing \<^verbatim>\<open>AcceleratorBuffer.h\<close>: configuration that does not act on the state
  machine.\<close>

definition SetCpuAccessHint :: "UsageHint \<Rightarrow> 'a AcceleratorBuffer \<Rightarrow> 'a AcceleratorBuffer" where
  "SetCpuAccessHint h b = b\<lparr> m_cpuAccessHint := h \<rparr>"

definition SetGpuAccessHint :: "UsageHint \<Rightarrow> 'a AcceleratorBuffer \<Rightarrow> 'a AcceleratorBuffer" where
  "SetGpuAccessHint h b = b\<lparr> m_gpuAccessHint := h \<rparr>"

text \<open>Modelled from the spec: a "direct indexed write" of the producer interface on the
  CPU side (the subscript operator of the missing \<^verbatim>\<open>AcceleratorBuffer.h\<close>). An index
  outside the buffer is undefined behaviour in the original; here it is \<open>None\<close>.\<close>

definition write_cpu :: "nat \<Rightarrow> 'a \<Rightarrow> 'a AcceleratorBuffer \<Rightarrow> 'a AcceleratorBuffer option" where
  "write_cpu i v b =
     (if i < size_buf b
      then Some (b\<lparr> cells := (cells b)[i := (v, snd (cells b ! i))] \<rparr>)
      else None)"

text \<open>A sequence of indexed writes, in order; it stops at the first failing one.\<close>

fun write_seq :: "(nat \<times> 'a) list \<Rightarrow> 'a AcceleratorBuffer \<Rightarrow> 'a AcceleratorBuffer option" where
  "write_seq [] b = Some b"
| "write_seq ((i, v) # ws) b =
     (case write_cpu i v b of None \<Rightarrow> None | Some b' \<Rightarrow> write_seq ws b')"


section \<open>WaveformBase\<close>

text \<open>
  The fields of \<^verbatim>\<open>class WaveformBase\<close>, in the order of the header. \<^verbatim>\<open>int64_t\<close> and
  \<^verbatim>\<open>uint64_t\<close> are 64-bit words, \<^verbatim>\<open>uint8_t\<close> an 8-bit word. The width of \<^verbatim>\<open>time_t\<close> is
  left to the platform and the header never computes with it, so it is an \<open>int\<close>.
\<close>

record WaveformBase =
  m_timescale :: "64 word"
  m_startTimestamp :: int
  m_startFemtoseconds :: "64 word"
  m_triggerPhase :: "64 word"
  m_densePacked :: bool
  m_flags :: "8 word"
  m_revision :: "64 word"
  m_offsets :: "64 word AcceleratorBuffer"
  m_durations :: "64 word AcceleratorBuffer"

definition WAVEFORM_CLIPPING :: "8 word" where
  "WAVEFORM_CLIPPING = 1"

text \<open>The constructor: the initialiser list, then the two calls of its body on the
  default-constructed timestamp buffers.\<close>

definition WaveformBase_ctor :: "UsageHint \<times> UsageHint \<Rightarrow> WaveformBase" where
  "WaveformBase_ctor hints =
     \<lparr> m_timescale = 0, m_startTimestamp = 0, m_startFemtoseconds = 0, m_triggerPhase = 0,
       m_densePacked = False, m_flags = 0, m_revision = 0,
       m_offsets = PrepareForCpuAccess_buf (AcceleratorBuffer_init hints),
       m_durations = PrepareForCpuAccess_buf (AcceleratorBuffer_init hints) \<rparr>"

text \<open>
  The member functions of the base class take and return the object. They are stated on
  the record scheme, so that the one non-virtual member, \<open>CopyTimestamps\<close>, is inherited by
  \<^verbatim>\<open>Waveform<S>\<close> as it is in C++. For the virtual members the function named
  \<open>WaveformBase_\<dots>\<close> is the body that runs on an object whose dynamic type is
  \<^verbatim>\<open>WaveformBase\<close>; \<^verbatim>\<open>Waveform<S>\<close> overrides them below.
\<close>

definition WaveformBase_clear :: "'z WaveformBase_scheme \<Rightarrow> 'z WaveformBase_scheme" where
  "WaveformBase_clear w =
     (let w1 = w\<lparr> m_offsets := clear_buf (m_offsets w) \<rparr>
      in w1\<lparr> m_durations := clear_buf (m_durations w1) \<rparr>)"

definition WaveformBase_Resize ::
  "nat \<Rightarrow> 64 word junk \<Rightarrow> 64 word junk \<Rightarrow> 'z WaveformBase_scheme \<Rightarrow> 'z WaveformBase_scheme" where
  "WaveformBase_Resize sz jo jd w =
     (let w1 = w\<lparr> m_offsets := resize sz jo (m_offsets w) \<rparr>
      in w1\<lparr> m_durations := resize sz jd (m_durations w1) \<rparr>)"

text \<open>\<^verbatim>\<open>GetText\<close> ignores its index and returns a literal.\<close>

definition WaveformBase_GetText ::
  "nat \<Rightarrow> 'z WaveformBase_scheme \<Rightarrow> string \<times> 'z WaveformBase_scheme" where
  "WaveformBase_GetText i w = (''(unimplemented)'', w)"

text \<open>\<^verbatim>\<open>GetColor\<close> ignores its index and reads the entry \<^verbatim>\<open>COLOR_ERROR\<close> of the table
  \<^verbatim>\<open>StandardColors::colors\<close>. Table and enumeration live in \<^verbatim>\<open>StandardColors.h\<close>, which is
  not part of the sources verified here: both are parameters, the table as a function from the
  enumeration to colours.\<close>

definition WaveformBase_GetColor ::
  "('k \<Rightarrow> 'c) \<Rightarrow> 'k \<Rightarrow> nat \<Rightarrow> 'z WaveformBase_scheme \<Rightarrow> 'c \<times> 'z WaveformBase_scheme" where
  "WaveformBase_GetColor colors COLOR_ERROR i w = (colors COLOR_ERROR, w)"

definition WaveformBase_PrepareForCpuAccess :: "'z WaveformBase_scheme \<Rightarrow> 'z WaveformBase_scheme" where
  "WaveformBase_PrepareForCpuAccess w =
     (let w1 = w\<lparr> m_offsets := PrepareForCpuAccess_buf (m_offsets w) \<rparr>
      in w1\<lparr> m_durations := PrepareForCpuAccess_buf (m_durations w1) \<rparr>)"

definition WaveformBase_PrepareForGpuAccess :: "'z WaveformBase_scheme \<Rightarrow> 'z WaveformBase_scheme" where
  "WaveformBase_PrepareForGpuAccess w =
     (let w1 = w\<lparr> m_offsets := PrepareForGpuAccess_buf (m_offsets w) \<rparr>
      in w1\<lparr> m_durations := PrepareForGpuAccess_buf (m_durations w1) \<rparr>)"

text \<open>\<^verbatim>\<open>CopyTimestamps\<close>: offsets first, then durations. The header checks nothing; the
  failure of a copy is the undefined behaviour of \<open>CopyFrom\<close> on unequal lengths.\<close>

definition CopyTimestamps ::
  "'y WaveformBase_scheme \<Rightarrow> 'z WaveformBase_scheme \<Rightarrow> 'z WaveformBase_scheme option" where
  "CopyTimestamps rhs w =
     (case CopyFrom (m_offsets rhs) (m_offsets w) of
        None \<Rightarrow> None
      | Some offs \<Rightarrow>
          (case CopyFrom (m_durations rhs) (m_durations w) of
             None \<Rightarrow> None
           | Some durs \<Rightarrow> Some (w\<lparr> m_offsets := offs, m_durations := durs \<rparr>)))"

text \<open>The four marking hooks of the base class have empty bodies.\<close>

definition WaveformBase_MarkSamplesModifiedFromCpu :: "'z WaveformBase_scheme \<Rightarrow> 'z WaveformBase_scheme" where
  "WaveformBase_MarkSamplesModifiedFromCpu w = w"

definition WaveformBase_MarkSamplesModifiedFromGpu :: "'z WaveformBase_scheme \<Rightarrow> 'z WaveformBase_scheme" where
  "WaveformBase_MarkSamplesModifiedFromGpu w = w"

definition WaveformBase_MarkTimestampsModifiedFromCpu :: "'z WaveformBase_scheme \<Rightarrow> 'z WaveformBase_scheme" where
  "WaveformBase_MarkTimestampsModifiedFromCpu w = w"

definition WaveformBase_MarkTimestampsModifiedFromGpu :: "'z WaveformBase_scheme \<Rightarrow> 'z WaveformBase_scheme" where
  "WaveformBase_MarkTimestampsModifiedFromGpu w = w"


section \<open>Waveform<S>\<close>

record 's Waveform = WaveformBase +
  m_samples :: "'s AcceleratorBuffer"

text \<open>The constructor runs the base constructor, default-constructs \<open>m_samples\<close> and sets
  its two hints.\<close>

definition Waveform_ctor :: "UsageHint \<times> UsageHint \<Rightarrow> 's Waveform" where
  "Waveform_ctor hints =
     WaveformBase.extend (WaveformBase_ctor hints)
       (Waveform.fields
          (SetGpuAccessHint HINT_LIKELY
             (SetCpuAccessHint HINT_LIKELY (AcceleratorBuffer_init hints))))"

definition Waveform_Resize ::
  "nat \<Rightarrow> 64 word junk \<Rightarrow> 64 word junk \<Rightarrow> 's junk \<Rightarrow> 's Waveform \<Rightarrow> 's Waveform" where
  "Waveform_Resize sz jo jd js w =
     (let w1 = w\<lparr> m_offsets := resize sz jo (m_offsets w) \<rparr>;
          w2 = w1\<lparr> m_durations := resize sz jd (m_durations w1) \<rparr>
      in w2\<lparr> m_samples := resize sz js (m_samples w2) \<rparr>)"

definition Waveform_clear :: "'s Waveform \<Rightarrow> 's Waveform" where
  "Waveform_clear w =
     (let w1 = w\<lparr> m_offsets := clear_buf (m_offsets w) \<rparr>;
          w2 = w1\<lparr> m_durations := clear_buf (m_durations w1) \<rparr>
      in w2\<lparr> m_samples := clear_buf (m_samples w2) \<rparr>)"

definition Waveform_PrepareForCpuAccess :: "'s Waveform \<Rightarrow> 's Waveform" where
  "Waveform_PrepareForCpuAccess w =
     (let w1 = w\<lparr> m_offsets := PrepareForCpuAccess_buf (m_offsets w) \<rparr>;
          w2 = w1\<lparr> m_durations := PrepareForCpuAccess_buf (m_durations w1) \<rparr>
      in w2\<lparr> m_samples := PrepareForCpuAccess_buf (m_samples w2) \<rparr>)"

definition Waveform_PrepareForGpuAccess :: "'s Waveform \<Rightarrow> 's Waveform" where
  "Waveform_PrepareForGpuAccess w =
     (let w1 = w\<lparr> m_offsets := PrepareForGpuAccess_buf (m_offsets w) \<rparr>;
          w2 = w1\<lparr> m_durations := PrepareForGpuAccess_buf (m_durations w1) \<rparr>
      in w2\<lparr> m_samples := PrepareForGpuAccess_buf (m_samples w2) \<rparr>)"

definition Waveform_MarkTimestampsModifiedFromCpu :: "'s Waveform \<Rightarrow> 's Waveform" where
  "Waveform_MarkTimestampsModifiedFromCpu w =
     (let w1 = w\<lparr> m_offsets := MarkModifiedFromCpu (m_offsets w) \<rparr>
      in w1\<lparr> m_durations := MarkModifiedFromCpu (m_durations w1) \<rparr>)"

definition Waveform_MarkTimestampsModifiedFromGpu :: "'s Waveform \<Rightarrow> 's Waveform" where
  "Waveform_MarkTimestampsModifiedFromGpu w =
     (let w1 = w\<lparr> m_offsets := MarkModifiedFromGpu (m_offsets w) \<rparr>
      in w1\<lparr> m_durations := MarkModifiedFromGpu (m_durations w1) \<rparr>)"

definition Waveform_MarkSamplesModifiedFromCpu :: "'s Waveform \<Rightarrow> 's Waveform" where
  "Waveform_MarkSamplesModifiedFromCpu w = w\<lparr> m_samples := MarkModifiedFromCpu (m_samples w) \<rparr>"

definition Waveform_MarkSamplesModifiedFromGpu :: "'s Waveform \<Rightarrow> 's Waveform" where
  "Waveform_MarkSamplesModifiedFromGpu w = w\<lparr> m_samples := MarkModifiedFromGpu (m_samples w) \<rparr>"


text \<open>The publication of CPU-side writes followed by a change of domain and back: both
  marking members, then \<open>PrepareForGpuAccess\<close>, then \<open>PrepareForCpuAccess\<close>.\<close>

definition Waveform_round_trip :: "'s Waveform \<Rightarrow> 's Waveform" where
  "Waveform_round_trip w =
     Waveform_PrepareForCpuAccess (Waveform_PrepareForGpuAccess
       (Waveform_MarkSamplesModifiedFromCpu (Waveform_MarkTimestampsModifiedFromCpu w)))"


section \<open>Operations applied in sequence\<close>

text \<open>
  The operations that change a waveform, as values, in the order of the header. A virtual
  call runs the body of the dynamic type of the object: \<open>Waveform_apply\<close> is the dispatch on
  a \<^verbatim>\<open>Waveform<S>\<close>, \<open>WaveformBase_apply\<close> the dispatch on a bare \<^verbatim>\<open>WaveformBase\<close> (which has no
  sample buffer, so the junk for the samples is not used there). \<open>CopyTimestamps\<close> is not
  virtual and is the same function in both.
\<close>

datatype 's lifecycle_op =
    Op_clear
  | Op_Resize nat "64 word junk" "64 word junk" "'s junk"
  | Op_PrepareForCpuAccess
  | Op_PrepareForGpuAccess
  | Op_CopyTimestamps WaveformBase
  | Op_MarkSamplesModifiedFromCpu
  | Op_MarkSamplesModifiedFromGpu
  | Op_MarkTimestampsModifiedFromCpu
  | Op_MarkTimestampsModifiedFromGpu

fun WaveformBase_apply :: "'s lifecycle_op \<Rightarrow> WaveformBase \<Rightarrow> WaveformBase option" where
  "WaveformBase_apply Op_clear w = Some (WaveformBase_clear w)"
| "WaveformBase_apply (Op_Resize n jo jd js) w = Some (WaveformBase_Resize n jo jd w)"
| "WaveformBase_apply Op_PrepareForCpuAccess w = Some (WaveformBase_PrepareForCpuAccess w)"
| "WaveformBase_apply Op_PrepareForGpuAccess w = Some (WaveformBase_PrepareForGpuAccess w)"
| "WaveformBase_apply (Op_CopyTimestamps rhs) w = CopyTimestamps rhs w"
| "WaveformBase_apply Op_MarkSamplesModifiedFromCpu w =
     Some (WaveformBase_MarkSamplesModifiedFromCpu w)"
| "WaveformBase_apply Op_MarkSamplesModifiedFromGpu w =
     Some (WaveformBase_MarkSamplesModifiedFromGpu w)"
| "WaveformBase_apply Op_MarkTimestampsModifiedFromCpu w =
     Some (WaveformBase_MarkTimestampsModifiedFromCpu w)"
| "WaveformBase_apply Op_MarkTimestampsModifiedFromGpu w =
     Some (WaveformBase_MarkTimestampsModifiedFromGpu w)"

fun Waveform_apply :: "'s lifecycle_op \<Rightarrow> 's Waveform \<Rightarrow> 's Waveform option" where
  "Waveform_apply Op_clear w = Some (Waveform_clear w)"
| "Waveform_apply (Op_Resize n jo jd js) w = Some (Waveform_Resize n jo jd js w)"
| "Waveform_apply Op_PrepareForCpuAccess w = Some (Waveform_PrepareForCpuAccess w)"
| "Waveform_apply Op_PrepareForGpuAccess w = Some (Waveform_PrepareForGpuAccess w)"
| "Waveform_apply (Op_CopyTimestamps rhs) w = CopyTimestamps rhs w"
| "Waveform_apply Op_MarkSamplesModifiedFromCpu w =
     Some (Waveform_MarkSamplesModifiedFromCpu w)"
| "Waveform_apply Op_MarkSamplesModifiedFromGpu w =
     Some (Waveform_MarkSamplesModifiedFromGpu w)"
| "Waveform_apply Op_MarkTimestampsModifiedFromCpu w =
     Some (Waveform_MarkTimestampsModifiedFromCpu w)"
| "Waveform_apply Op_MarkTimestampsModifiedFromGpu w =
     Some (Waveform_MarkTimestampsModifiedFromGpu w)"

fun WaveformBase_run :: "'s lifecycle_op list \<Rightarrow> WaveformBase \<Rightarrow> WaveformBase option" where
  "WaveformBase_run [] w = Some w"
| "WaveformBase_run (x # xs) w =
     (case WaveformBase_apply x w of None \<Rightarrow> None | Some w' \<Rightarrow> WaveformBase_run xs w')"

fun Waveform_run :: "'s lifecycle_op list \<Rightarrow> 's Waveform \<Rightarrow> 's Waveform option" where
  "Waveform_run [] w = Some w"
| "Waveform_run (x # xs) w =
     (case Waveform_apply x w of None \<Rightarrow> None | Some w' \<Rightarrow> Waveform_run xs w')"


section \<open>The dense-packed layout\<close>

text \<open>
  The comment on \<open>m_densePacked\<close>: "\<open>m_durations\<close> is always 1, and \<open>m_offsets\<close> ranges from 0
  to \<open>m_offsets.size()-1\<close>". The two halves, on a sequence of offsets and on a sequence of
  durations:
\<close>

definition dense_offsets :: "64 word list \<Rightarrow> bool" where
  "dense_offsets offs = (offs = map word_of_nat [0..<length offs])"

definition dense_durations :: "64 word list \<Rightarrow> bool" where
  "dense_durations durs = (durs = replicate (length durs) 1)"

text \<open>
  A consumer prepares a buffer for its domain and then reads (the consumer interface of
  the specification). \<open>cpu_read\<close> is what a consumer on the CPU side reads then, \<open>gpu_read\<close>
  what a consumer on the GPU side reads; \<open>reads_all P\<close> says that both have the property
  \<open>P\<close>. A copy that is stale is not read, a copy that has been declared authoritative is.
\<close>

definition cpu_read :: "'a AcceleratorBuffer \<Rightarrow> 'a list" where
  "cpu_read b = cpu_data (PrepareForCpuAccess_buf b)"

definition gpu_read :: "'a AcceleratorBuffer \<Rightarrow> 'a list" where
  "gpu_read b = gpu_data (PrepareForGpuAccess_buf b)"

definition reads_all :: "('a list \<Rightarrow> bool) \<Rightarrow> 'a AcceleratorBuffer \<Rightarrow> bool" where
  "reads_all P b = (P (cpu_read b) \<and> P (gpu_read b))"

text \<open>The layout of a pair of timestamp buffers: one length, dense offsets and dense
  durations in whatever is read. The invariant that the flag declares is the layout
  whenever \<open>m_densePacked\<close> is set.\<close>

definition dense_layout :: "64 word AcceleratorBuffer \<Rightarrow> 64 word AcceleratorBuffer \<Rightarrow> bool" where
  "dense_layout offs durs =
     (size_buf durs = size_buf offs
      \<and> reads_all dense_offsets offs \<and> reads_all dense_durations durs)"

definition densePacked_inv :: "'z WaveformBase_scheme \<Rightarrow> bool" where
  "densePacked_inv w =
     (if m_densePacked w then dense_layout (m_offsets w) (m_durations w) else True)"

text \<open>
  What each operation needs in order to keep the layout of a dense-packed waveform that has
  it. \<open>clear\<close>, the two preparations and the marking of the samples need nothing. A resize
  needs the new, unspecified content to be dense. \<open>CopyTimestamps\<close> needs the source to have
  the layout. On a \<^verbatim>\<open>Waveform<S>\<close>, marking the timestamps as modified from one domain needs
  the copy of that domain to be dense wherever it is stale (a copy that is not stale is
  dense already); on a bare \<^verbatim>\<open>WaveformBase\<close> the two hooks are empty and need nothing.
\<close>

fun Waveform_keeps_layout :: "'s lifecycle_op \<Rightarrow> 'z WaveformBase_scheme \<Rightarrow> bool" where
  "Waveform_keeps_layout Op_clear w = True"
| "Waveform_keeps_layout (Op_Resize n jo jd js) w =
     (dense_offsets (map (fst jo) [0..<n]) \<and> dense_offsets (map (snd jo) [0..<n])
      \<and> dense_durations (map (fst jd) [0..<n]) \<and> dense_durations (map (snd jd) [0..<n]))"
| "Waveform_keeps_layout Op_PrepareForCpuAccess w = True"
| "Waveform_keeps_layout Op_PrepareForGpuAccess w = True"
| "Waveform_keeps_layout (Op_CopyTimestamps rhs) w = dense_layout (m_offsets rhs) (m_durations rhs)"
| "Waveform_keeps_layout Op_MarkSamplesModifiedFromCpu w = True"
| "Waveform_keeps_layout Op_MarkSamplesModifiedFromGpu w = True"
| "Waveform_keeps_layout Op_MarkTimestampsModifiedFromCpu w =
     ((residency (m_offsets w) \<noteq> GpuValid \<or> dense_offsets (cpu_data (m_offsets w)))
      \<and> (residency (m_durations w) \<noteq> GpuValid \<or> dense_durations (cpu_data (m_durations w))))"
| "Waveform_keeps_layout Op_MarkTimestampsModifiedFromGpu w =
     ((residency (m_offsets w) \<noteq> CpuValid \<or> dense_offsets (gpu_data (m_offsets w)))
      \<and> (residency (m_durations w) \<noteq> CpuValid \<or> dense_durations (gpu_data (m_durations w))))"

fun WaveformBase_keeps_layout :: "'s lifecycle_op \<Rightarrow> WaveformBase \<Rightarrow> bool" where
  "WaveformBase_keeps_layout Op_MarkTimestampsModifiedFromCpu b = True"
| "WaveformBase_keeps_layout Op_MarkTimestampsModifiedFromGpu b = True"
| "WaveformBase_keeps_layout x b = Waveform_keeps_layout x b"


section \<open>Agreement of the lengths\<close>

text \<open>The data model's invariant: the three buffers of a waveform have the same length.\<close>

definition lengths_agree :: "'s Waveform \<Rightarrow> bool" where
  "lengths_agree w =
     (size_buf (m_durations w) = size_buf (m_offsets w)
      \<and> size_buf (m_samples w) = size_buf (m_offsets w))"


section \<open>Example waveforms\<close>

text \<open>A buffer that the producer has filled on the CPU side and marked; the GPU view
  still holds zeros.\<close>

definition cpu_filled :: "'a::zero list \<Rightarrow> 'a AcceleratorBuffer" where
  "cpu_filled xs =
     \<lparr> cells = map (\<lambda>x. (x, 0)) xs, residency = CpuValid,
       m_cpuAccessHint = HINT_LIKELY, m_gpuAccessHint = HINT_LIKELY \<rparr>"

text \<open>Scenario A of the specification, with integer samples: after \<open>Resize(4)\<close> the
  producer has written offsets, durations and samples and declared the waveform dense
  packed. \<open>sparse_C\<close> is a run-length compressed waveform as in scenario C, without
  samples; \<open>dense_base\<close> is a bare base object with the timestamps of scenario A.\<close>

definition dense_A :: "int Waveform" where
  "dense_A =
     (Waveform_ctor (HINT_LIKELY, HINT_LIKELY))
       \<lparr> m_densePacked := True,
         m_offsets := cpu_filled [0, 1, 2, 3],
         m_durations := cpu_filled [1, 1, 1, 1],
         m_samples := cpu_filled [1, 2, 3, 4] \<rparr>"

definition sparse_C :: WaveformBase where
  "sparse_C =
     (WaveformBase_ctor (HINT_LIKELY, HINT_LIKELY))
       \<lparr> m_offsets := cpu_filled [0, 5, 7, 9],
         m_durations := cpu_filled [5, 2, 2, 3] \<rparr>"

text \<open>A buffer that a kernel has filled on the GPU side and marked; the CPU view is
  stale and holds zeros. \<open>dense_gpu_base\<close> has the timestamps of scenario A in such
  buffers.\<close>

definition gpu_filled :: "'a::zero list \<Rightarrow> 'a AcceleratorBuffer" where
  "gpu_filled xs =
     \<lparr> cells = map (\<lambda>x. (0, x)) xs, residency = GpuValid,
       m_cpuAccessHint = HINT_LIKELY, m_gpuAccessHint = HINT_LIKELY \<rparr>"

definition dense_gpu_base :: WaveformBase where
  "dense_gpu_base =
     (WaveformBase_ctor (HINT_LIKELY, HINT_LIKELY))
       \<lparr> m_densePacked := True,
         m_offsets := gpu_filled [0, 1, 2, 3],
         m_durations := gpu_filled [1, 1, 1, 1] \<rparr>"

definition dense_base :: WaveformBase where
  "dense_base =
     (WaveformBase_ctor (HINT_LIKELY, HINT_LIKELY))
       \<lparr> m_densePacked := True,
         m_offsets := cpu_filled [0, 1, 2, 3],
         m_durations := cpu_filled [1, 1, 1, 1] \<rparr>"


section \<open>Unfolding sets\<close>

lemmas Waveform_op_defs =
  Waveform_clear_def Waveform_Resize_def Waveform_PrepareForCpuAccess_def
  Waveform_PrepareForGpuAccess_def Waveform_MarkSamplesModifiedFromCpu_def
  Waveform_MarkSamplesModifiedFromGpu_def Waveform_MarkTimestampsModifiedFromCpu_def
  Waveform_MarkTimestampsModifiedFromGpu_def

lemmas WaveformBase_op_defs =
  WaveformBase_clear_def WaveformBase_Resize_def WaveformBase_PrepareForCpuAccess_def
  WaveformBase_PrepareForGpuAccess_def WaveformBase_MarkSamplesModifiedFromCpu_def
  WaveformBase_MarkSamplesModifiedFromGpu_def WaveformBase_MarkTimestampsModifiedFromCpu_def
  WaveformBase_MarkTimestampsModifiedFromGpu_def

lemmas example_defs =
  dense_A_def sparse_C_def dense_base_def dense_gpu_base_def cpu_filled_def gpu_filled_def
  Waveform_ctor_def WaveformBase_ctor_def
  WaveformBase.extend_def Waveform.fields_def AcceleratorBuffer_init_def
  SetCpuAccessHint_def SetGpuAccessHint_def


section \<open>Resize\<close>

lemma size_buf_resize: "size_buf (resize n j b) = n"
  by (simp add: size_buf_def resize_def)

lemma size_buf_simps:
  "size_buf (clear_buf b) = 0"
  "size_buf (MarkModifiedFromCpu b) = size_buf b"
  "size_buf (MarkModifiedFromGpu b) = size_buf b"
  "size_buf (PrepareForGpuAccess_buf b) = size_buf b"
  "size_buf (PrepareForCpuAccess_buf b) = size_buf b"
  by (auto simp add: size_buf_def clear_buf_def MarkModifiedFromCpu_def MarkModifiedFromGpu_def
      split: Residency.splits)

lemma length_cpu_data: "length (cpu_data b) = size_buf b"
  by (simp add: cpu_data_def size_buf_def)

lemma length_gpu_data: "length (gpu_data b) = size_buf b"
  by (simp add: gpu_data_def size_buf_def)

text \<open>
  C1. After \<open>Resize(n)\<close> on a \<^verbatim>\<open>Waveform<S>\<close> the offsets, the durations and the samples
  buffer all have length \<open>n\<close>; after \<open>Resize(n)\<close> on a bare \<^verbatim>\<open>WaveformBase\<close> both timestamp
  buffers have length \<open>n\<close>.
\<close>

theorem Resize_lengths:
  fixes w :: "'s Waveform" and b :: WaveformBase
  shows "size_buf (m_offsets (Waveform_Resize n jo jd js w)) = n
       \<and> size_buf (m_durations (Waveform_Resize n jo jd js w)) = n
       \<and> size_buf (m_samples (Waveform_Resize n jo jd js w)) = n
       \<and> size_buf (m_offsets (WaveformBase_Resize n jo jd b)) = n
       \<and> size_buf (m_durations (WaveformBase_Resize n jo jd b)) = n"
  by (simp add: Waveform_Resize_def WaveformBase_Resize_def Let_def size_buf_resize)


section \<open>CopyTimestamps\<close>

lemma CopyFrom_Some:
  "CopyFrom rhs b = Some b' \<longleftrightarrow>
     size_buf b = size_buf rhs \<and> b' = b\<lparr> cells := cells rhs, residency := residency rhs \<rparr>"
  by (auto simp add: CopyFrom_def)

lemma CopyFrom_size: "CopyFrom rhs b = Some b' \<Longrightarrow> size_buf b' = size_buf b"
  by (auto simp add: CopyFrom_def size_buf_def split: if_splits)

lemma CopyFrom_data:
  "CopyFrom rhs b = Some b' \<Longrightarrow>
     cpu_data b' = cpu_data rhs \<and> gpu_data b' = gpu_data rhs \<and> residency b' = residency rhs"
  by (auto simp add: CopyFrom_def cpu_data_def gpu_data_def split: if_splits)

lemma CopyTimestamps_fields:
  "CopyTimestamps rhs w = Some w' \<Longrightarrow>
     \<exists>offs durs. CopyFrom (m_offsets rhs) (m_offsets w) = Some offs
       \<and> CopyFrom (m_durations rhs) (m_durations w) = Some durs
       \<and> w' = w\<lparr> m_offsets := offs, m_durations := durs \<rparr>"
  by (auto simp add: CopyTimestamps_def split: option.splits)

text \<open>
  C2. Let \<open>A\<close> be a waveform whose two timestamp buffers have one length, \<open>len(A)\<close> (the
  invariant of the data model), and let \<open>B\<close> have been resized to \<open>len(A)\<close>. Then
  \<open>B.CopyTimestamps(A)\<close> succeeds, afterwards the offsets and the durations of \<open>B\<close> are those
  of \<open>A\<close>, entry by entry (in the CPU view, in the GPU view, and with the same validity),
  and the samples buffer of \<open>B\<close> is as it was before the copy.
\<close>

theorem CopyTimestamps_after_Resize:
  fixes A :: "'y WaveformBase_scheme" and B :: "'s Waveform"
  assumes "size_buf (m_durations A) = size_buf (m_offsets A)"
  shows "\<exists>B'. CopyTimestamps A (Waveform_Resize (size_buf (m_offsets A)) jo jd js B) = Some B'
           \<and> cpu_data (m_offsets B') = cpu_data (m_offsets A)
           \<and> cpu_data (m_durations B') = cpu_data (m_durations A)
           \<and> gpu_data (m_offsets B') = gpu_data (m_offsets A)
           \<and> gpu_data (m_durations B') = gpu_data (m_durations A)
           \<and> residency (m_offsets B') = residency (m_offsets A)
           \<and> residency (m_durations B') = residency (m_durations A)
           \<and> m_samples B' = m_samples (Waveform_Resize (size_buf (m_offsets A)) jo jd js B)"
  using assms
  by (simp add: CopyTimestamps_def CopyFrom_def Waveform_Resize_def Let_def size_buf_resize
      cpu_data_def gpu_data_def)

text \<open>The premise of C2 at a concrete pair: the run-length compressed \<open>sparse_C\<close> copied
  into a resized \<open>dense_A\<close>.\<close>

theorem CopyTimestamps_after_Resize_witness:
  "size_buf (m_durations sparse_C) = size_buf (m_offsets sparse_C)
   \<and> (\<exists>B'. CopyTimestamps sparse_C
              (Waveform_Resize 4 (\<lambda>i. 0, \<lambda>i. 0) (\<lambda>i. 0, \<lambda>i. 0) (\<lambda>i. 9, \<lambda>i. 9) dense_A) = Some B'
           \<and> cpu_data (m_offsets B') = [0, 5, 7, 9]
           \<and> cpu_data (m_durations B') = [5, 2, 2, 3]
           \<and> cpu_data (m_samples B') = [9, 9, 9, 9])"
proof -
  have h: "size_buf (m_durations sparse_C) = size_buf (m_offsets sparse_C)"
    by (simp add: sparse_C_def cpu_filled_def size_buf_def)
  have n: "size_buf (m_offsets sparse_C) = 4"
    by (simp add: sparse_C_def cpu_filled_def size_buf_def)
  from CopyTimestamps_after_Resize [OF h, of "(\<lambda>i. 0, \<lambda>i. 0)" "(\<lambda>i. 0, \<lambda>i. 0)"
      "(\<lambda>i. 9, \<lambda>i. 9)" dense_A]
  obtain B' where
    B': "CopyTimestamps sparse_C
           (Waveform_Resize 4 (\<lambda>i. 0, \<lambda>i. 0) (\<lambda>i. 0, \<lambda>i. 0) (\<lambda>i. 9, \<lambda>i. 9) dense_A) = Some B'"
    and o: "cpu_data (m_offsets B') = cpu_data (m_offsets sparse_C)"
    and d: "cpu_data (m_durations B') = cpu_data (m_durations sparse_C)"
    and s: "m_samples B'
          = m_samples (Waveform_Resize 4 (\<lambda>i. 0, \<lambda>i. 0) (\<lambda>i. 0, \<lambda>i. 0) (\<lambda>i. 9, \<lambda>i. 9) dense_A)"
    unfolding n by blast
  have "cpu_data (m_offsets B') = [0, 5, 7, 9]"
    using o by (simp add: sparse_C_def cpu_filled_def cpu_data_def)
  moreover have "cpu_data (m_durations B') = [5, 2, 2, 3]"
    using d by (simp add: sparse_C_def cpu_filled_def cpu_data_def)
  moreover have "cpu_data (m_samples B') = [9, 9, 9, 9]"
    using s by (simp add: Waveform_Resize_def Let_def resize_def cpu_data_def upt_rec)
  ultimately show ?thesis using h B' by blast
qed

section \<open>Marking\<close>

text \<open>
  On a bare \<^verbatim>\<open>WaveformBase\<close> the two timestamp hooks forward nothing. After
  \<open>MarkTimestampsModifiedFromGpu\<close> on \<open>dense_base\<close> (whose buffers are \<open>CpuValid\<close>) the buffers
  are not what \<open>MarkModifiedFromGpu\<close> would have made of them, and likewise for the CPU hook
  on buffers that are \<open>BothValid\<close>.
\<close>

theorem MarkTimestamps_base_counterexample:
  "m_offsets (WaveformBase_MarkTimestampsModifiedFromGpu dense_base)
     \<noteq> MarkModifiedFromGpu (m_offsets dense_base)
   \<and> m_durations (WaveformBase_MarkTimestampsModifiedFromGpu dense_base)
     \<noteq> MarkModifiedFromGpu (m_durations dense_base)
   \<and> m_offsets (WaveformBase_MarkTimestampsModifiedFromCpu
         (WaveformBase_PrepareForGpuAccess dense_base))
     \<noteq> MarkModifiedFromCpu (m_offsets (WaveformBase_PrepareForGpuAccess dense_base))
   \<and> m_durations (WaveformBase_MarkTimestampsModifiedFromCpu
         (WaveformBase_PrepareForGpuAccess dense_base))
     \<noteq> MarkModifiedFromCpu (m_durations (WaveformBase_PrepareForGpuAccess dense_base))"
  by (simp add: WaveformBase_MarkTimestampsModifiedFromGpu_def
      WaveformBase_MarkTimestampsModifiedFromCpu_def dense_base_def cpu_filled_def
      WaveformBase_PrepareForGpuAccess_def Let_def
      MarkModifiedFromGpu_def MarkModifiedFromCpu_def)

text \<open>
  C3, as the header has it. On a \<^verbatim>\<open>Waveform<S>\<close>, \<open>MarkTimestampsModifiedFromCpu\<close> and
  \<open>MarkTimestampsModifiedFromGpu\<close> forward the corresponding \<open>MarkModifiedFrom\<dots>\<close> call to the
  offsets buffer and to the durations buffer and leave the samples buffer as it is. On a
  bare \<^verbatim>\<open>WaveformBase\<close> the two hooks have empty bodies and change nothing.
\<close>

theorem MarkTimestamps_forwarding:
  fixes w :: "'s Waveform" and b :: WaveformBase
  shows "m_offsets (Waveform_MarkTimestampsModifiedFromCpu w) = MarkModifiedFromCpu (m_offsets w)
       \<and> m_durations (Waveform_MarkTimestampsModifiedFromCpu w) = MarkModifiedFromCpu (m_durations w)
       \<and> m_samples (Waveform_MarkTimestampsModifiedFromCpu w) = m_samples w
       \<and> m_offsets (Waveform_MarkTimestampsModifiedFromGpu w) = MarkModifiedFromGpu (m_offsets w)
       \<and> m_durations (Waveform_MarkTimestampsModifiedFromGpu w) = MarkModifiedFromGpu (m_durations w)
       \<and> m_samples (Waveform_MarkTimestampsModifiedFromGpu w) = m_samples w
       \<and> WaveformBase_MarkTimestampsModifiedFromCpu b = b
       \<and> WaveformBase_MarkTimestampsModifiedFromGpu b = b"
  by (simp add: Waveform_MarkTimestampsModifiedFromCpu_def Waveform_MarkTimestampsModifiedFromGpu_def
      WaveformBase_MarkTimestampsModifiedFromCpu_def WaveformBase_MarkTimestampsModifiedFromGpu_def
      Let_def)

section \<open>Round trip\<close>

lemma write_cpu_data:
  "write_cpu i v b = Some b' \<Longrightarrow> cpu_data b' = (cpu_data b)[i := v] \<and> i < length (cpu_data b)"
  by (auto simp add: write_cpu_def cpu_data_def size_buf_def map_update split: if_splits)

lemma write_seq_contents:
  "write_seq ws b = Some b1 \<Longrightarrow>
     cpu_data b1 = foldl (\<lambda>xs (i, v). xs[i := v]) (cpu_data b) ws"
proof (induction ws arbitrary: b)
  case Nil
  then show ?case by simp
next
  case (Cons x ws)
  obtain i v where x: "x = (i, v)" by (cases x)
  from Cons.prems x obtain b' where
    w: "write_cpu i v b = Some b'" and r: "write_seq ws b' = Some b1"
    by (auto split: option.splits)
  from write_cpu_data [OF w] have "cpu_data b' = (cpu_data b)[i := v]" by simp
  with Cons.IH [OF r] x show ?case by simp
qed

lemma round_trip_any:
  "cpu_data (PrepareForCpuAccess_buf (PrepareForGpuAccess_buf (MarkModifiedFromCpu b))) = cpu_data b
   \<and> gpu_data (PrepareForCpuAccess_buf (PrepareForGpuAccess_buf (MarkModifiedFromCpu b))) = cpu_data b
   \<and> residency (PrepareForCpuAccess_buf (PrepareForGpuAccess_buf (MarkModifiedFromCpu b))) = BothValid"
  by (auto simp add: MarkModifiedFromCpu_def cpu_data_def gpu_data_def)

lemma Waveform_round_trip_data:
  "cpu_data (m_offsets (Waveform_round_trip w)) = cpu_data (m_offsets w)
   \<and> cpu_data (m_durations (Waveform_round_trip w)) = cpu_data (m_durations w)
   \<and> cpu_data (m_samples (Waveform_round_trip w)) = cpu_data (m_samples w)"
  using round_trip_any [of "m_offsets w"] round_trip_any [of "m_durations w"]
    round_trip_any [of "m_samples w"]
  by (simp add: Waveform_round_trip_def Waveform_op_defs Let_def
      del: PrepareForCpuAccess_buf.simps PrepareForGpuAccess_buf.simps)

text \<open>
  C4. For every buffer \<open>b\<close> and every sequence \<open>ws\<close> of indexed writes on the CPU side that
  the buffer accepts: after the writes, \<open>MarkModifiedFromCpu\<close>, \<open>PrepareForGpuAccess\<close> and
  \<open>PrepareForCpuAccess\<close>, the CPU-visible contents are the old contents with the written
  values in place, that is, exactly the contents right after the writes. (The GPU view
  then holds the same, and the buffer is valid in both domains.) On a \<^verbatim>\<open>Waveform<S>\<close> the
  same sequence, through the marking and preparing members of the class, leaves the
  CPU-visible contents of all three buffers as they were.
\<close>

theorem sync_round_trip:
  fixes b b1 :: "'a AcceleratorBuffer" and w :: "'s Waveform"
  assumes "write_seq ws b = Some b1"
  shows "cpu_data (PrepareForCpuAccess_buf (PrepareForGpuAccess_buf (MarkModifiedFromCpu b1)))
           = foldl (\<lambda>xs (i, v). xs[i := v]) (cpu_data b) ws
       \<and> cpu_data (PrepareForCpuAccess_buf (PrepareForGpuAccess_buf (MarkModifiedFromCpu b1)))
           = cpu_data b1
       \<and> gpu_data (PrepareForCpuAccess_buf (PrepareForGpuAccess_buf (MarkModifiedFromCpu b1)))
           = cpu_data b1
       \<and> residency (PrepareForCpuAccess_buf (PrepareForGpuAccess_buf (MarkModifiedFromCpu b1)))
           = BothValid
       \<and> cpu_data (m_offsets (Waveform_round_trip w)) = cpu_data (m_offsets w)
       \<and> cpu_data (m_durations (Waveform_round_trip w)) = cpu_data (m_durations w)
       \<and> cpu_data (m_samples (Waveform_round_trip w)) = cpu_data (m_samples w)"
  using round_trip_any [of b1] write_seq_contents [OF assms] Waveform_round_trip_data [of w]
  by simp

text \<open>The premise of C4 at a concrete buffer, which is \<open>GpuValid\<close> when the writes
  start.\<close>

theorem sync_round_trip_witness:
  "write_seq [(0, 7), (1, 9), (0, 8)] (MarkModifiedFromGpu (cpu_filled [1, 2, 3, 4 :: int]))
     = Some ((MarkModifiedFromGpu (cpu_filled [1, 2, 3, 4]))\<lparr> cells := [(8, 0), (9, 0), (3, 0), (4, 0)] \<rparr>)
   \<and> cpu_data (PrepareForCpuAccess_buf (PrepareForGpuAccess_buf (MarkModifiedFromCpu
        ((MarkModifiedFromGpu (cpu_filled [1, 2, 3, 4]))\<lparr> cells := [(8, 0), (9, 0), (3, 0), (4, 0)] \<rparr>))))
       = [8, 9, 3, 4 :: int]"
proof -
  have h: "write_seq [(0, 7), (1, 9), (0, 8)] (MarkModifiedFromGpu (cpu_filled [1, 2, 3, 4 :: int]))
     = Some ((MarkModifiedFromGpu (cpu_filled [1, 2, 3, 4]))\<lparr> cells := [(8, 0), (9, 0), (3, 0), (4, 0)] \<rparr>)"
    by (simp add: cpu_filled_def MarkModifiedFromGpu_def write_cpu_def size_buf_def)
  from sync_round_trip [OF h, where w = dense_A] show ?thesis using h
    by (simp add: cpu_filled_def MarkModifiedFromGpu_def cpu_data_def)
qed

section \<open>Construction\<close>

text \<open>
  C7. For every element type, the constructor of \<^verbatim>\<open>Waveform<S>\<close> leaves the CPU access hint
  and the GPU access hint of the samples buffer at \<open>HINT_LIKELY\<close>, which is not
  \<open>HINT_ALWAYS\<close>, whatever the defaults of the buffer are.
\<close>

theorem Waveform_ctor_hints:
  "m_cpuAccessHint (m_samples (Waveform_ctor hints)) = HINT_LIKELY
   \<and> m_gpuAccessHint (m_samples (Waveform_ctor hints)) = HINT_LIKELY
   \<and> HINT_LIKELY \<noteq> HINT_ALWAYS"
  by (simp add: Waveform_ctor_def WaveformBase.extend_def Waveform.fields_def
      SetCpuAccessHint_def SetGpuAccessHint_def)

text \<open>
  C10. The constructor of \<^verbatim>\<open>WaveformBase\<close> sets timescale, start timestamp, start
  femtoseconds, trigger phase, flags and revision to 0 and \<open>m_densePacked\<close> to false, and
  prepares both timestamp buffers for CPU access: a new waveform has timestamp buffers of
  length 0 that are valid on the CPU side.
\<close>

theorem WaveformBase_ctor_fields:
  "m_timescale (WaveformBase_ctor hints) = 0
   \<and> m_startTimestamp (WaveformBase_ctor hints) = 0
   \<and> m_startFemtoseconds (WaveformBase_ctor hints) = 0
   \<and> m_triggerPhase (WaveformBase_ctor hints) = 0
   \<and> m_densePacked (WaveformBase_ctor hints) = False
   \<and> m_flags (WaveformBase_ctor hints) = 0
   \<and> m_revision (WaveformBase_ctor hints) = 0
   \<and> m_offsets (WaveformBase_ctor hints) = PrepareForCpuAccess_buf (AcceleratorBuffer_init hints)
   \<and> m_durations (WaveformBase_ctor hints) = PrepareForCpuAccess_buf (AcceleratorBuffer_init hints)
   \<and> residency (m_offsets (WaveformBase_ctor hints)) = CpuValid
   \<and> residency (m_durations (WaveformBase_ctor hints)) = CpuValid
   \<and> size_buf (m_offsets (WaveformBase_ctor hints)) = 0
   \<and> size_buf (m_durations (WaveformBase_ctor hints)) = 0"
  by (simp add: WaveformBase_ctor_def AcceleratorBuffer_init_def size_buf_def)

section \<open>Defaults of the base class\<close>

text \<open>
  C8. On every waveform that does not override the decode hooks (the base class and every
  \<^verbatim>\<open>Waveform<S>\<close>) and for every index, \<open>GetText\<close> returns the string \<^verbatim>\<open>(unimplemented)\<close> and
  \<open>GetColor\<close> the \<^verbatim>\<open>COLOR_ERROR\<close> entry of the colour table; both return a value on every
  input and hand the waveform back unchanged.
\<close>

theorem default_decode_hooks:
  fixes w :: "'z WaveformBase_scheme"
  shows "WaveformBase_GetText i w = (''(unimplemented)'', w)
       \<and> WaveformBase_GetColor colors COLOR_ERROR i w = (colors COLOR_ERROR, w)"
  by (simp add: WaveformBase_GetText_def WaveformBase_GetColor_def)

text \<open>
  C9. On a bare \<^verbatim>\<open>WaveformBase\<close>, \<open>MarkSamplesModifiedFromCpu\<close> and
  \<open>MarkSamplesModifiedFromGpu\<close> return the object as it was: offsets, durations and every
  metadata field are unchanged.
\<close>

theorem base_MarkSamples_noop:
  fixes b :: WaveformBase
  shows "WaveformBase_MarkSamplesModifiedFromCpu b = b
       \<and> WaveformBase_MarkSamplesModifiedFromGpu b = b"
  by (simp add: WaveformBase_MarkSamplesModifiedFromCpu_def
      WaveformBase_MarkSamplesModifiedFromGpu_def)

section \<open>The revision counter\<close>

lemma Waveform_apply_meta:
  assumes "Waveform_apply x w = Some w'"
  shows "m_revision w' = m_revision w \<and> m_densePacked w' = m_densePacked w"
proof (cases x)
  case (Op_CopyTimestamps rhs)
  with assms CopyTimestamps_fields [of rhs w w'] show ?thesis by auto
qed (insert assms, auto simp add: Waveform_op_defs Let_def)

lemma WaveformBase_apply_meta:
  assumes "WaveformBase_apply x b = Some b'"
  shows "m_revision b' = m_revision b \<and> m_densePacked b' = m_densePacked b"
proof (cases x)
  case (Op_CopyTimestamps rhs)
  with assms CopyTimestamps_fields [of rhs b b'] show ?thesis by auto
qed (insert assms, auto simp add: WaveformBase_op_defs Let_def)

lemma Waveform_run_revision:
  "Waveform_run ops w = Some w' \<Longrightarrow> m_revision w' = m_revision w"
proof (induction ops arbitrary: w)
  case Nil
  then show ?case by simp
next
  case (Cons x ops)
  then obtain w1 where a: "Waveform_apply x w = Some w1" and r: "Waveform_run ops w1 = Some w'"
    by (auto split: option.splits)
  from Cons.IH [OF r] Waveform_apply_meta [OF a] show ?case by simp
qed

lemma WaveformBase_run_revision:
  "WaveformBase_run ops b = Some b' \<Longrightarrow> m_revision b' = m_revision b"
proof (induction ops arbitrary: b)
  case Nil
  then show ?case by simp
next
  case (Cons x ops)
  then obtain b1 where a: "WaveformBase_apply x b = Some b1"
    and r: "WaveformBase_run ops b1 = Some b'"
    by (auto split: option.splits)
  from Cons.IH [OF r] WaveformBase_apply_meta [OF a] show ?case by simp
qed

text \<open>
  C6. The revision counter starts at 0 in a new object, bare or with samples, and no
  sequence of lifecycle operations (resize, clear, prepare, mark, copy of timestamps) that
  runs to its end leaves it smaller than it was: the header never writes \<open>m_revision\<close>
  after construction, so the counter is neither decreased nor reset. The order is the one
  of \<^verbatim>\<open>uint64_t\<close>.
\<close>

theorem revision_non_decreasing:
  fixes w w' :: "'s Waveform" and b b' :: WaveformBase
    and ops :: "'s lifecycle_op list" and ops' :: "'t lifecycle_op list"
  shows "m_revision (WaveformBase_ctor hints) = 0
       \<and> m_revision (Waveform_ctor hints :: 's Waveform) = 0
       \<and> (Waveform_run ops w = Some w' \<longrightarrow> m_revision w \<le> m_revision w')
       \<and> (WaveformBase_run ops' b = Some b' \<longrightarrow> m_revision b \<le> m_revision b')"
proof -
  have "m_revision (WaveformBase_ctor hints) = 0"
    by (simp add: WaveformBase_ctor_def)
  moreover have "m_revision (Waveform_ctor hints :: 's Waveform) = 0"
    by (simp add: Waveform_ctor_def WaveformBase_ctor_def WaveformBase.extend_def)
  moreover have "Waveform_run ops w = Some w' \<longrightarrow> m_revision w \<le> m_revision w'"
    using Waveform_run_revision [of ops w w'] by simp
  moreover have "WaveformBase_run ops' b = Some b' \<longrightarrow> m_revision b \<le> m_revision b'"
    using WaveformBase_run_revision [of ops' b b'] by simp
  ultimately show ?thesis by blast
qed

text \<open>The premises of C6 at two concrete runs, from a revision of 3.\<close>

theorem revision_non_decreasing_witness:
  "Waveform_run [Op_Resize 2 (\<lambda>i. 0, \<lambda>i. 0) (\<lambda>i. 1, \<lambda>i. 1) (\<lambda>i. 5, \<lambda>i. 5),
       Op_MarkSamplesModifiedFromCpu, Op_PrepareForGpuAccess, Op_clear]
     (dense_A\<lparr> m_revision := 3 \<rparr>)
     = Some (Waveform_clear (Waveform_PrepareForGpuAccess (Waveform_MarkSamplesModifiedFromCpu
         (Waveform_Resize 2 (\<lambda>i. 0, \<lambda>i. 0) (\<lambda>i. 1, \<lambda>i. 1) (\<lambda>i. 5, \<lambda>i. 5)
            (dense_A\<lparr> m_revision := 3 \<rparr>)))))
   \<and> WaveformBase_run [Op_MarkTimestampsModifiedFromGpu :: int lifecycle_op, Op_PrepareForCpuAccess]
       (sparse_C\<lparr> m_revision := 3 \<rparr>)
     = Some (WaveformBase_PrepareForCpuAccess (WaveformBase_MarkTimestampsModifiedFromGpu
         (sparse_C\<lparr> m_revision := 3 \<rparr>)))
   \<and> (3 :: 64 word) \<le> m_revision (Waveform_clear (Waveform_PrepareForGpuAccess
         (Waveform_MarkSamplesModifiedFromCpu
           (Waveform_Resize 2 (\<lambda>i. 0, \<lambda>i. 0) (\<lambda>i. 1, \<lambda>i. 1) (\<lambda>i. 5, \<lambda>i. 5)
              (dense_A\<lparr> m_revision := 3 \<rparr>)))))
   \<and> (3 :: 64 word) \<le> m_revision (WaveformBase_PrepareForCpuAccess
         (WaveformBase_MarkTimestampsModifiedFromGpu (sparse_C\<lparr> m_revision := 3 \<rparr>)))"
proof -
  let ?ops = "[Op_Resize 2 (\<lambda>i. 0, \<lambda>i. 0) (\<lambda>i. 1, \<lambda>i. 1) (\<lambda>i. 5, \<lambda>i. 5),
       Op_MarkSamplesModifiedFromCpu, Op_PrepareForGpuAccess, Op_clear] :: int lifecycle_op list"
  let ?w' = "Waveform_clear (Waveform_PrepareForGpuAccess (Waveform_MarkSamplesModifiedFromCpu
         (Waveform_Resize 2 (\<lambda>i. 0, \<lambda>i. 0) (\<lambda>i. 1, \<lambda>i. 1) (\<lambda>i. 5, \<lambda>i. 5)
            (dense_A\<lparr> m_revision := 3 \<rparr>))))"
  let ?ops' = "[Op_MarkTimestampsModifiedFromGpu :: int lifecycle_op, Op_PrepareForCpuAccess]"
  let ?b' = "WaveformBase_PrepareForCpuAccess (WaveformBase_MarkTimestampsModifiedFromGpu
         (sparse_C\<lparr> m_revision := 3 \<rparr>))"
  have h1: "Waveform_run ?ops (dense_A\<lparr> m_revision := 3 \<rparr>) = Some ?w'" by simp
  have h2: "WaveformBase_run ?ops' (sparse_C\<lparr> m_revision := 3 \<rparr>) = Some ?b'" by simp
  from revision_non_decreasing [of "(HINT_LIKELY, HINT_LIKELY)" ?ops "dense_A\<lparr> m_revision := 3 \<rparr>" ?w'
      ?ops' "sparse_C\<lparr> m_revision := 3 \<rparr>" ?b'] h1 h2
  show ?thesis by simp
qed


section \<open>Dense packing\<close>

text \<open>\<open>dense_offsets\<close> and \<open>dense_durations\<close> are the pointwise statements of the comment on
  \<open>m_densePacked\<close>.\<close>

lemma dense_offsets_nth:
  "dense_offsets offs \<longleftrightarrow> (\<forall>i < length offs. offs ! i = word_of_nat i)"
proof
  assume "dense_offsets offs"
  then have o: "offs = map word_of_nat [0..<length offs]"
    by (simp only: dense_offsets_def)
  show "\<forall>i < length offs. offs ! i = word_of_nat i"
  proof (intro allI impI)
    fix i assume i: "i < length offs"
    have "offs ! i = map word_of_nat [0..<length offs] ! i"
      using o by (rule arg_cong)
    then show "offs ! i = word_of_nat i" using i by simp
  qed
next
  assume r: "\<forall>i < length offs. offs ! i = word_of_nat i"
  have "offs = map word_of_nat [0..<length offs]"
    by (rule nth_equalityI) (insert r, simp_all)
  then show "dense_offsets offs"
    by (simp only: dense_offsets_def)
qed

lemma dense_durations_nth:
  "dense_durations durs \<longleftrightarrow> (\<forall>i < length durs. durs ! i = 1)"
proof
  assume "dense_durations durs"
  then have d: "durs = replicate (length durs) 1"
    by (simp only: dense_durations_def)
  show "\<forall>i < length durs. durs ! i = 1"
  proof (intro allI impI)
    fix i assume i: "i < length durs"
    have "durs ! i = replicate (length durs) (1 :: 64 word) ! i"
      using d by (rule arg_cong)
    then show "durs ! i = 1" using i by simp
  qed
next
  assume r: "\<forall>i < length durs. durs ! i = 1"
  have "durs = replicate (length durs) 1"
    by (rule nth_equalityI) (insert r, simp_all)
  then show "dense_durations durs"
    by (simp only: dense_durations_def)
qed

lemma dense_Nil: "dense_offsets []" "dense_durations []"
  by (simp_all add: dense_offsets_def dense_durations_def)

subsection \<open>What is read after each buffer operation\<close>

lemma reads_clear: "reads_all P (clear_buf b) = P []"
  by (simp add: reads_all_def cpu_read_def gpu_read_def clear_buf_def cpu_data_def gpu_data_def)

lemma reads_resize:
  "reads_all P (resize n j b) = (P (map (fst j) [0..<n]) \<and> P (map (snd j) [0..<n]))"
  by (simp add: reads_all_def cpu_read_def gpu_read_def resize_def cpu_data_def gpu_data_def
      comp_def)

lemma reads_PrepareForCpuAccess:
  "reads_all P b \<Longrightarrow> reads_all P (PrepareForCpuAccess_buf b)"
  by (cases "residency b")
    (auto simp add: reads_all_def cpu_read_def gpu_read_def cpu_data_def gpu_data_def
      comp_def split_beta)

lemma reads_PrepareForGpuAccess:
  "reads_all P b \<Longrightarrow> reads_all P (PrepareForGpuAccess_buf b)"
  by (cases "residency b")
    (auto simp add: reads_all_def cpu_read_def gpu_read_def cpu_data_def gpu_data_def
      comp_def split_beta)

lemma reads_MarkModifiedFromCpu: "reads_all P (MarkModifiedFromCpu b) = P (cpu_data b)"
  by (auto simp add: reads_all_def cpu_read_def gpu_read_def MarkModifiedFromCpu_def
      cpu_data_def gpu_data_def comp_def split_beta)

lemma reads_MarkModifiedFromGpu: "reads_all P (MarkModifiedFromGpu b) = P (gpu_data b)"
  by (auto simp add: reads_all_def cpu_read_def gpu_read_def MarkModifiedFromGpu_def
      cpu_data_def gpu_data_def comp_def split_beta)

lemma reads_cpu_fresh: "reads_all P b \<Longrightarrow> residency b \<noteq> GpuValid \<Longrightarrow> P (cpu_data b)"
  by (cases "residency b") (auto simp add: reads_all_def cpu_read_def cpu_data_def)

lemma reads_gpu_fresh: "reads_all P b \<Longrightarrow> residency b \<noteq> CpuValid \<Longrightarrow> P (gpu_data b)"
  by (cases "residency b") (auto simp add: reads_all_def gpu_read_def gpu_data_def)

lemma reads_CopyFrom: "CopyFrom rhs b = Some b' \<Longrightarrow> reads_all P b' = reads_all P rhs"
  by (cases "residency rhs")
    (auto simp add: CopyFrom_def reads_all_def cpu_read_def gpu_read_def cpu_data_def
      gpu_data_def split: if_splits)

subsection \<open>The layout after each operation\<close>

lemma Waveform_apply_layout:
  fixes w w' :: "'s Waveform"
  assumes a: "Waveform_apply x w = Some w'" and l: "dense_layout (m_offsets w) (m_durations w)"
  shows "dense_layout (m_offsets w') (m_durations w') \<longleftrightarrow> Waveform_keeps_layout x w"
proof (cases x)
  case (Op_CopyTimestamps rhs)
  with a have c: "CopyTimestamps rhs w = Some w'" by simp
  from CopyTimestamps_fields [OF c] obtain offs durs where
    o: "CopyFrom (m_offsets rhs) (m_offsets w) = Some offs"
    and u: "CopyFrom (m_durations rhs) (m_durations w) = Some durs"
    and w': "w' = w\<lparr> m_offsets := offs, m_durations := durs \<rparr>"
    by blast
  from o u l have "size_buf (m_durations rhs) = size_buf (m_offsets rhs)"
    by (auto simp add: CopyFrom_def dense_layout_def split: if_splits)
  with reads_CopyFrom [OF o] reads_CopyFrom [OF u] CopyFrom_size [OF o] CopyFrom_size [OF u]
    w' l Op_CopyTimestamps show ?thesis
    by (simp add: dense_layout_def)
next
  case Op_MarkTimestampsModifiedFromCpu
  with a l reads_cpu_fresh [of dense_offsets "m_offsets w"]
    reads_cpu_fresh [of dense_durations "m_durations w"]
  show ?thesis
    by (auto simp add: Waveform_MarkTimestampsModifiedFromCpu_def Let_def dense_layout_def
        reads_MarkModifiedFromCpu size_buf_simps)
next
  case Op_MarkTimestampsModifiedFromGpu
  with a l reads_gpu_fresh [of dense_offsets "m_offsets w"]
    reads_gpu_fresh [of dense_durations "m_durations w"]
  show ?thesis
    by (auto simp add: Waveform_MarkTimestampsModifiedFromGpu_def Let_def dense_layout_def
        reads_MarkModifiedFromGpu size_buf_simps)
qed (insert a l, auto simp add: Waveform_op_defs Let_def dense_layout_def reads_clear
    reads_resize dense_Nil reads_PrepareForCpuAccess reads_PrepareForGpuAccess
    size_buf_simps size_buf_resize
    simp del: PrepareForCpuAccess_buf.simps PrepareForGpuAccess_buf.simps)

lemma WaveformBase_apply_layout:
  assumes a: "WaveformBase_apply x b = Some b'" and l: "dense_layout (m_offsets b) (m_durations b)"
  shows "dense_layout (m_offsets b') (m_durations b') \<longleftrightarrow> WaveformBase_keeps_layout x b"
proof (cases x)
  case (Op_CopyTimestamps rhs)
  with a have c: "CopyTimestamps rhs b = Some b'" by simp
  from CopyTimestamps_fields [OF c] obtain offs durs where
    o: "CopyFrom (m_offsets rhs) (m_offsets b) = Some offs"
    and u: "CopyFrom (m_durations rhs) (m_durations b) = Some durs"
    and b': "b' = b\<lparr> m_offsets := offs, m_durations := durs \<rparr>"
    by blast
  from o u l have "size_buf (m_durations rhs) = size_buf (m_offsets rhs)"
    by (auto simp add: CopyFrom_def dense_layout_def split: if_splits)
  with reads_CopyFrom [OF o] reads_CopyFrom [OF u] CopyFrom_size [OF o] CopyFrom_size [OF u]
    b' l Op_CopyTimestamps show ?thesis
    by (simp add: dense_layout_def)
qed (insert a l, auto simp add: WaveformBase_op_defs Let_def dense_layout_def reads_clear
    reads_resize dense_Nil reads_PrepareForCpuAccess reads_PrepareForGpuAccess
    size_buf_simps size_buf_resize
    simp del: PrepareForCpuAccess_buf.simps PrepareForGpuAccess_buf.simps)

lemma Waveform_apply_inv:
  fixes w w' :: "'s Waveform"
  assumes a: "Waveform_apply x w = Some w'" and i: "densePacked_inv w"
  shows "densePacked_inv w' \<longleftrightarrow> (m_densePacked w \<longrightarrow> Waveform_keeps_layout x w)"
proof (cases "m_densePacked w")
  case True
  with i have l: "dense_layout (m_offsets w) (m_durations w)"
    by (simp add: densePacked_inv_def)
  from Waveform_apply_meta [OF a] True have "m_densePacked w'" by simp
  with Waveform_apply_layout [OF a l] True show ?thesis
    by (simp add: densePacked_inv_def)
next
  case False
  with Waveform_apply_meta [OF a] show ?thesis
    by (simp add: densePacked_inv_def)
qed

lemma WaveformBase_apply_inv:
  assumes a: "WaveformBase_apply x b = Some b'" and i: "densePacked_inv b"
  shows "densePacked_inv b' \<longleftrightarrow> (m_densePacked b \<longrightarrow> WaveformBase_keeps_layout x b)"
proof (cases "m_densePacked b")
  case True
  with i have l: "dense_layout (m_offsets b) (m_durations b)"
    by (simp add: densePacked_inv_def)
  from WaveformBase_apply_meta [OF a] True have "m_densePacked b'" by simp
  with WaveformBase_apply_layout [OF a l] True show ?thesis
    by (simp add: densePacked_inv_def)
next
  case False
  with WaveformBase_apply_meta [OF a] show ?thesis
    by (simp add: densePacked_inv_def)
qed


lemmas layout_defs =
  densePacked_inv_def dense_layout_def reads_all_def cpu_read_def gpu_read_def
  dense_offsets_def dense_durations_def cpu_data_def gpu_data_def size_buf_def

lemma upt_0_4: "[0..<4] = [0, 1, 2, 3]"
  by (simp add: upt_rec)

text \<open>
  The dense layout is not preserved by every operation: \<open>dense_A\<close> is dense packed, has the
  layout and has the length of \<open>sparse_C\<close>, so \<open>CopyTimestamps\<close> is within its contract, and
  afterwards the flag is still set while the offset read at index 1 is 5.
\<close>

theorem densePacked_not_preserved:
  "m_densePacked dense_A
   \<and> densePacked_inv dense_A
   \<and> size_buf (m_offsets dense_A) = size_buf (m_offsets sparse_C)
   \<and> size_buf (m_durations dense_A) = size_buf (m_durations sparse_C)
   \<and> CopyTimestamps sparse_C dense_A
       = Some (dense_A\<lparr> m_offsets := m_offsets sparse_C, m_durations := m_durations sparse_C \<rparr>)
   \<and> m_densePacked (dense_A\<lparr> m_offsets := m_offsets sparse_C, m_durations := m_durations sparse_C \<rparr>)
   \<and> cpu_read (m_offsets
         (dense_A\<lparr> m_offsets := m_offsets sparse_C, m_durations := m_durations sparse_C \<rparr>)) ! 1 = 5
   \<and> \<not> densePacked_inv
         (dense_A\<lparr> m_offsets := m_offsets sparse_C, m_durations := m_durations sparse_C \<rparr>)"
  by (simp add: example_defs layout_defs size_buf_def CopyTimestamps_def CopyFrom_def)

text \<open>
  C5, as the header has it. The dense layout is a declaration of the producer that the
  header neither checks nor restores. A new waveform, bare or with samples, has
  \<open>m_densePacked\<close> false, so the invariant holds on it, and no operation changes the flag.
  An operation that succeeds on a waveform satisfying the invariant (whenever the flag is
  set, the two timestamp buffers have one length \<open>n\<close> and what a consumer reads after
  preparing either domain has \<open>offsets[i] = i\<close> and \<open>durations[i] = 1\<close> for all \<open>i\<close> below
  \<open>n\<close>) leaves it satisfied exactly when the flag is clear or
  the condition of \<open>Waveform_keeps_layout\<close> (on a bare base object,
  \<open>WaveformBase_keeps_layout\<close>) holds: always for \<open>clear\<close>, \<open>PrepareForCpuAccess\<close>,
  \<open>PrepareForGpuAccess\<close> and the marking of the samples; for \<open>Resize\<close> when the new content is
  dense; for \<open>CopyTimestamps\<close> when the source has the layout; for marking the timestamps of
  a \<^verbatim>\<open>Waveform<S>\<close> when the copy declared authoritative is dense wherever it was stale, and
  always for the empty hooks of the base class.
\<close>

theorem densePacked_producer_obligation:
  fixes w w' :: "'s Waveform" and b b' :: WaveformBase
    and x :: "'s lifecycle_op" and y :: "'t lifecycle_op"
  shows "m_densePacked (Waveform_ctor hints :: 's Waveform) = False
       \<and> m_densePacked (WaveformBase_ctor hints) = False
       \<and> densePacked_inv (Waveform_ctor hints :: 's Waveform)
       \<and> densePacked_inv (WaveformBase_ctor hints)
       \<and> (Waveform_apply x w = Some w' \<longrightarrow> m_densePacked w' = m_densePacked w)
       \<and> (WaveformBase_apply y b = Some b' \<longrightarrow> m_densePacked b' = m_densePacked b)
       \<and> (Waveform_apply x w = Some w' \<and> densePacked_inv w
            \<longrightarrow> (densePacked_inv w' \<longleftrightarrow> (m_densePacked w \<longrightarrow> Waveform_keeps_layout x w)))
       \<and> (WaveformBase_apply y b = Some b' \<and> densePacked_inv b
            \<longrightarrow> (densePacked_inv b' \<longleftrightarrow> (m_densePacked b \<longrightarrow> WaveformBase_keeps_layout y b)))"
proof -
  have f: "m_densePacked (Waveform_ctor hints :: 's Waveform) = False"
    by (simp add: Waveform_ctor_def WaveformBase_ctor_def WaveformBase.extend_def)
  have g: "m_densePacked (WaveformBase_ctor hints) = False"
    by (simp add: WaveformBase_ctor_def)
  have "densePacked_inv (Waveform_ctor hints :: 's Waveform)"
    using f by (simp add: densePacked_inv_def)
  moreover have "densePacked_inv (WaveformBase_ctor hints)"
    using g by (simp add: densePacked_inv_def)
  moreover have "Waveform_apply x w = Some w' \<longrightarrow> m_densePacked w' = m_densePacked w"
    using Waveform_apply_meta [of x w w'] by simp
  moreover have "WaveformBase_apply y b = Some b' \<longrightarrow> m_densePacked b' = m_densePacked b"
    using WaveformBase_apply_meta [of y b b'] by simp
  moreover have "Waveform_apply x w = Some w' \<and> densePacked_inv w
            \<longrightarrow> (densePacked_inv w' \<longleftrightarrow> (m_densePacked w \<longrightarrow> Waveform_keeps_layout x w))"
    using Waveform_apply_inv [of x w w'] by blast
  moreover have "WaveformBase_apply y b = Some b' \<and> densePacked_inv b
            \<longrightarrow> (densePacked_inv b' \<longleftrightarrow> (m_densePacked b \<longrightarrow> WaveformBase_keeps_layout y b))"
    using WaveformBase_apply_inv [of y b b'] by blast
  ultimately show ?thesis using f g by blast
qed

text \<open>The premises of C5 at four operations that change the buffers: a mark from the GPU
  on buffers valid in both domains, a transfer from the GPU into a stale CPU copy, a copy
  of timestamps from a dense source in another domain, and a resize to dense content.\<close>

theorem densePacked_producer_obligation_witness:
  "Waveform_apply (Op_MarkTimestampsModifiedFromGpu :: int lifecycle_op)
       (Waveform_PrepareForGpuAccess dense_A)
     = Some (Waveform_MarkTimestampsModifiedFromGpu (Waveform_PrepareForGpuAccess dense_A))
   \<and> WaveformBase_apply (Op_PrepareForCpuAccess :: int lifecycle_op) dense_gpu_base
     = Some (WaveformBase_PrepareForCpuAccess dense_gpu_base)
   \<and> Waveform_apply (Op_CopyTimestamps dense_gpu_base) dense_A
     = Some (dense_A\<lparr> m_offsets := m_offsets dense_gpu_base,
                       m_durations := m_durations dense_gpu_base \<rparr>)
   \<and> WaveformBase_apply
         (Op_Resize 4 (word_of_nat, word_of_nat) (\<lambda>i. 1, \<lambda>i. 1) (\<lambda>i. 0, \<lambda>i. 0) :: int lifecycle_op)
         dense_base
     = Some (WaveformBase_Resize 4 (word_of_nat, word_of_nat) (\<lambda>i. 1, \<lambda>i. 1) dense_base)
   \<and> m_densePacked (Waveform_PrepareForGpuAccess dense_A)
   \<and> m_densePacked dense_gpu_base
   \<and> m_densePacked dense_A
   \<and> m_densePacked dense_base
   \<and> densePacked_inv (Waveform_PrepareForGpuAccess dense_A)
   \<and> densePacked_inv dense_gpu_base
   \<and> densePacked_inv dense_A
   \<and> densePacked_inv dense_base
   \<and> residency (m_offsets (Waveform_PrepareForGpuAccess dense_A)) = BothValid
   \<and> cpu_data (m_offsets dense_gpu_base) = [0, 0, 0, 0]
   \<and> cpu_data (m_offsets (WaveformBase_PrepareForCpuAccess dense_gpu_base)) = [0, 1, 2, 3]
   \<and> m_densePacked (Waveform_MarkTimestampsModifiedFromGpu (Waveform_PrepareForGpuAccess dense_A))
   \<and> m_densePacked (WaveformBase_PrepareForCpuAccess dense_gpu_base)
   \<and> densePacked_inv (Waveform_MarkTimestampsModifiedFromGpu (Waveform_PrepareForGpuAccess dense_A))
   \<and> densePacked_inv (WaveformBase_PrepareForCpuAccess dense_gpu_base)
   \<and> densePacked_inv (dense_A\<lparr> m_offsets := m_offsets dense_gpu_base,
                                 m_durations := m_durations dense_gpu_base \<rparr>)
   \<and> densePacked_inv (WaveformBase_Resize 4 (word_of_nat, word_of_nat) (\<lambda>i. 1, \<lambda>i. 1) dense_base)"
proof -
  let ?x = "Op_MarkTimestampsModifiedFromGpu :: int lifecycle_op"
  let ?w = "Waveform_PrepareForGpuAccess dense_A"
  let ?w' = "Waveform_MarkTimestampsModifiedFromGpu ?w"
  let ?y = "Op_PrepareForCpuAccess :: int lifecycle_op"
  let ?b' = "WaveformBase_PrepareForCpuAccess dense_gpu_base"
  let ?x2 = "Op_CopyTimestamps dense_gpu_base :: int lifecycle_op"
  let ?w2' = "dense_A\<lparr> m_offsets := m_offsets dense_gpu_base,
                        m_durations := m_durations dense_gpu_base \<rparr>"
  let ?y2 = "Op_Resize 4 (word_of_nat, word_of_nat) (\<lambda>i. 1, \<lambda>i. 1) (\<lambda>i. 0, \<lambda>i. 0)
               :: int lifecycle_op"
  let ?b2' = "WaveformBase_Resize 4 (word_of_nat, word_of_nat) (\<lambda>i. 1, \<lambda>i. 1) dense_base"
  have h1: "Waveform_apply ?x ?w = Some ?w'" by simp
  have h2: "WaveformBase_apply ?y dense_gpu_base = Some ?b'" by simp
  have h3: "Waveform_apply ?x2 dense_A = Some ?w2'"
    by (simp add: CopyTimestamps_def CopyFrom_def example_defs size_buf_def)
  have h4: "WaveformBase_apply ?y2 dense_base = Some ?b2'" by simp
  have f1: "m_densePacked ?w" and f2: "m_densePacked dense_gpu_base"
    and f3: "m_densePacked dense_A" and f4: "m_densePacked dense_base"
    by (simp_all add: example_defs Waveform_PrepareForGpuAccess_def Let_def)
  have i1: "densePacked_inv ?w"
    by (simp add: example_defs layout_defs Waveform_PrepareForGpuAccess_def Let_def)
  have i2: "densePacked_inv dense_gpu_base"
    by (simp add: example_defs layout_defs)
  have i3: "densePacked_inv dense_A"
    by (simp add: example_defs layout_defs)
  have i4: "densePacked_inv dense_base"
    by (simp add: example_defs layout_defs)
  have r: "residency (m_offsets ?w) = BothValid"
    and rd: "residency (m_durations ?w) = BothValid"
    by (simp_all add: example_defs Waveform_PrepareForGpuAccess_def Let_def)
  have k1: "Waveform_keeps_layout ?x ?w"
    using r rd by simp
  have k2: "WaveformBase_keeps_layout ?y dense_gpu_base"
    by simp
  have k3: "Waveform_keeps_layout ?x2 dense_A"
    using i2 f2 by (simp add: densePacked_inv_def)
  have k4: "WaveformBase_keeps_layout ?y2 dense_base"
    by (simp add: dense_offsets_def dense_durations_def upt_0_4)
  have c1: "cpu_data (m_offsets dense_gpu_base) = [0, 0, 0, 0]"
    and c2: "cpu_data (m_offsets ?b') = [0, 1, 2, 3]"
    by (simp_all add: example_defs cpu_data_def WaveformBase_PrepareForCpuAccess_def Let_def)
  from densePacked_producer_obligation [where x = ?x and w = ?w and w' = ?w'
      and y = ?y and b = dense_gpu_base and b' = ?b' and hints = "(HINT_LIKELY, HINT_LIKELY)"]
    h1 h2 i1 i2 k1 k2
  have a1: "m_densePacked ?w' = m_densePacked ?w \<and> m_densePacked ?b' = m_densePacked dense_gpu_base
      \<and> densePacked_inv ?w' \<and> densePacked_inv ?b'"
    by blast
  from densePacked_producer_obligation [where x = ?x2 and w = dense_A and w' = ?w2'
      and y = ?y2 and b = dense_base and b' = ?b2' and hints = "(HINT_LIKELY, HINT_LIKELY)"]
    h3 h4 i3 i4 k3 k4
  have a2: "densePacked_inv ?w2' \<and> densePacked_inv ?b2'"
    by blast
  from a1 a2 h1 h2 h3 h4 f1 f2 f3 f4 i1 i2 i3 i4 r c1 c2 show ?thesis by simp
qed

text \<open>Each condition of \<open>Waveform_keeps_layout\<close> is needed: a resize to other content and a
  mark that declares a stale, different copy authoritative lose the layout.\<close>

lemma densePacked_lost_by_Resize:
  "densePacked_inv dense_A
   \<and> \<not> densePacked_inv
         (Waveform_Resize 4 (\<lambda>i. 7, \<lambda>i. 7) (\<lambda>i. 7, \<lambda>i. 7) (\<lambda>i. 7, \<lambda>i. 7) dense_A)"
  by (simp add: example_defs layout_defs Waveform_Resize_def Let_def resize_def upt_0_4)

lemma densePacked_lost_by_stale_mark:
  "densePacked_inv dense_A
   \<and> \<not> densePacked_inv (Waveform_MarkTimestampsModifiedFromGpu dense_A)"
  by (simp add: example_defs layout_defs Waveform_MarkTimestampsModifiedFromGpu_def
      MarkModifiedFromGpu_def Let_def)


section \<open>The lengths agree\<close>

text \<open>The three buffers of a \<^verbatim>\<open>Waveform<S>\<close> keep one length: the constructor establishes it
  and every operation preserves it.\<close>

lemma Waveform_apply_lengths:
  assumes "Waveform_apply x w = Some w'" and "lengths_agree w"
  shows "lengths_agree w'"
proof (cases x)
  case (Op_CopyTimestamps rhs)
  with assms(1) have c: "CopyTimestamps rhs w = Some w'" by simp
  from CopyTimestamps_fields [OF c] obtain offs durs where
    o: "CopyFrom (m_offsets rhs) (m_offsets w) = Some offs"
    and u: "CopyFrom (m_durations rhs) (m_durations w) = Some durs"
    and w': "w' = w\<lparr> m_offsets := offs, m_durations := durs \<rparr>"
    by blast
  from CopyFrom_size [OF o] CopyFrom_size [OF u] w' assms(2) show ?thesis
    by (simp add: lengths_agree_def)
qed (insert assms, auto simp add: Waveform_op_defs Let_def lengths_agree_def size_buf_simps
    size_buf_resize simp del: PrepareForGpuAccess_buf.simps PrepareForCpuAccess_buf.simps)

lemma Waveform_ctor_lengths: "lengths_agree (Waveform_ctor hints)"
  by (simp add: lengths_agree_def Waveform_ctor_def WaveformBase_ctor_def
      WaveformBase.extend_def Waveform.fields_def AcceleratorBuffer_init_def size_buf_def
      SetCpuAccessHint_def SetGpuAccessHint_def)

lemma Waveform_run_lengths:
  "Waveform_run ops w = Some w' \<Longrightarrow> lengths_agree w \<Longrightarrow> lengths_agree w'"
proof (induction ops arbitrary: w)
  case Nil
  then show ?case by simp
next
  case (Cons x ops)
  from Cons.prems(1) obtain w1 where
    a: "Waveform_apply x w = Some w1" and r: "Waveform_run ops w1 = Some w'"
    by (auto split: option.splits)
  from Cons.IH [OF r Waveform_apply_lengths [OF a Cons.prems(2)]] show ?case .
qed

end
